theory Spec2Isabelle
  imports Complex_Main "HOL-Library.Product_Lexorder" "HOL-Library.Sublist" "HOL-Library.Multiset"
begin

unbundle bit_operations_syntax

section \<open>Python values used by app.py\<close>

text \<open>
  Exceptions are values: every function of app.py that can raise returns
  \<open>exn + 'a\<close>, with \<open>Inl\<close> the exception. All constructors stand for
  subclasses of Python's \<open>Exception\<close>, which is what \<open>except Exception\<close>
  catches; \<open>ExternalError\<close> is any exception raised inside camelot, pdfplumber
  or PyMuPDF. Floats (font sizes, coordinates) are modelled as rationals, so
  comparisons are exact and division does not round.
\<close>

datatype exn = KeyError | TypeError | ZeroDivisionError | ExternalError string

text \<open>
  \<open>str.isspace\<close> on the characters of \<open>string\<close>: space, \<open>\t \n \v \f \r\<close> and
  the separators 0x1C .. 0x1F. Whitespace code points outside ASCII are not
  modelled.
\<close>

definition isspace :: "char \<Rightarrow> bool" where
  "isspace c =
     (let n = (of_char c :: nat) in n = 32 \<or> (9 \<le> n \<and> n \<le> 13) \<or> (28 \<le> n \<and> n \<le> 31))"

text \<open>\<open>s.strip()\<close>\<close>

definition strip :: "string \<Rightarrow> string" where
  "strip s = rev (dropWhile isspace (rev (dropWhile isspace s)))"

text \<open>
  \<open>s.split()\<close>: the maximal runs of non-whitespace characters, in order.
  \<open>cur\<close> is the run being read, reversed.
\<close>

fun split_from :: "string \<Rightarrow> string \<Rightarrow> string list" where
  "split_from cur [] = (if cur = [] then [] else [rev cur])"
| "split_from cur (c # cs) =
     (if isspace c then (if cur = [] then split_from [] cs else rev cur # split_from [] cs)
      else split_from (c # cur) cs)"

definition py_split :: "string \<Rightarrow> string list" where
  "py_split s = split_from [] s"

text \<open>\<open>" ".join(parts)\<close>\<close>

fun join_space :: "string list \<Rightarrow> string" where
  "join_space [] = []"
| "join_space [p] = p"
| "join_space (p # q # ps) = p @ '' '' @ join_space (q # ps)"

text \<open>\<open>round(x)\<close> of Python 3: to the nearest integer, a tie to the even one.\<close>

definition py_round :: "rat \<Rightarrow> int" where
  "py_round x =
     (let f = \<lfloor>x\<rfloor>; d = x - of_int f in
      if d < 1 / 2 then f else if 1 / 2 < d then f + 1 else if even f then f else f + 1)"

section \<open>Content items\<close>

text \<open>
  The dictionaries appended to \<open>paragraphs\<close>, \<open>results\<close> and \<open>charts\<close>; the
  constructor is the \<open>"type"\<close> key. \<open>None\<close> is Python's \<open>None\<close>.
\<close>

datatype content_item =
    Paragraph (it_section: string) (it_sub_section: "string option") (it_text: string)
  | Table (it_section: string) (it_sub_section: "string option")
      (it_description: "string option") (it_table_data: "string list list option")
  | Chart (it_section: string) (it_sub_section: "string option")
      (it_description: "string option") (it_table_data: "string list list option")

text \<open>\<open>last_section if last_section else "Unknown"\<close>: \<open>None\<close> and \<open>""\<close> are falsy.\<close>

definition section_label :: "string option \<Rightarrow> string" where
  "section_label last_section =
     (case last_section of None \<Rightarrow> ''Unknown'' | Some s \<Rightarrow> if s = [] then ''Unknown'' else s)"

section \<open>sanitize\_table\<close>

text \<open>
  A cell of an extracted table is \<open>None\<close> or a string (\<open>Some s\<close>, with \<open>s\<close> what
  \<open>str(cell)\<close> returns).
\<close>

type_synonym raw_table = "string option list list"

definition sanitize_cell :: "string option \<Rightarrow> string" where
  "sanitize_cell cell = (case cell of None \<Rightarrow> [] | Some s \<Rightarrow> strip s)"

definition sanitize_table :: "raw_table \<Rightarrow> string list list" where
  "sanitize_table table_rows = map (map sanitize_cell) table_rows"

section \<open>extract\_text\_and\_headings\<close>

text \<open>
  The dictionary of \<open>page.get_text("dict")\<close>. A key read with \<open>.get\<close> or with
  a subscript may be missing: the field is then \<open>None\<close>.
\<close>

record span =
  span_text :: "string option"
  span_size :: "rat option"
  span_flags :: "int option"

record pdf_line =
  spans :: "span list option"

record block =
  lines :: "pdf_line list option"
  bbox :: "(rat \<times> rat \<times> rat \<times> rat) option"

record fitz_page =
  blocks :: "block list option"
  images :: "nat list"

record enriched_block =
  eb_text :: string
  eb_bbox :: "(rat \<times> rat \<times> rat \<times> rat) option"
  largest_font :: rat
  is_bold :: bool

type_synonym span_acc = "string list \<times> rat list \<times> int list"

text \<open>
  The two inner loops: \<open>span["text"]\<close>, \<open>span["size"]\<close> and \<open>span["flags"]\<close> are
  read in this order and a missing key raises \<open>KeyError\<close>.
\<close>

fun read_spans :: "span list \<Rightarrow> span_acc \<Rightarrow> exn + span_acc" where
  "read_spans [] acc = Inr acc"
| "read_spans (s # ss) (text_parts, font_sizes, font_flags) =
     (case span_text s of
        None \<Rightarrow> Inl KeyError
      | Some t \<Rightarrow>
         (case span_size s of
            None \<Rightarrow> Inl KeyError
          | Some z \<Rightarrow>
             (case span_flags s of
                None \<Rightarrow> Inl KeyError
              | Some f \<Rightarrow> read_spans ss (text_parts @ [t], font_sizes @ [z], font_flags @ [f]))))"

fun read_lines :: "pdf_line list \<Rightarrow> span_acc \<Rightarrow> exn + span_acc" where
  "read_lines [] acc = Inr acc"
| "read_lines (l # ls) acc =
     (case read_spans (case spans l of None \<Rightarrow> [] | Some ss \<Rightarrow> ss) acc of
        Inl e \<Rightarrow> Inl e
      | Inr acc' \<Rightarrow> read_lines ls acc')"

text \<open>\<open>max(font_sizes) if font_sizes else 0\<close>\<close>

definition max_font :: "rat list \<Rightarrow> rat" where
  "max_font font_sizes = (case font_sizes of [] \<Rightarrow> 0 | z # zs \<Rightarrow> fold max zs z)"

text \<open>The first loop over \<open>blocks\<close>, building \<open>enriched\<close>.\<close>

fun enrich :: "block list \<Rightarrow> enriched_block list \<Rightarrow> exn + enriched_block list" where
  "enrich [] enriched = Inr enriched"
| "enrich (b # bs) enriched =
     (case read_lines (case lines b of None \<Rightarrow> [] | Some ls \<Rightarrow> ls) ([], [], []) of
        Inl e \<Rightarrow> Inl e
      | Inr (text_parts, font_sizes, font_flags) \<Rightarrow>
         (let txt = strip (join_space text_parts) in
          if txt = [] then enrich bs enriched
          else enrich bs (enriched @
                 [\<lparr>eb_text = txt, eb_bbox = bbox b,
                   largest_font = max_font font_sizes,
                   is_bold = list_ex (\<lambda>f. f AND 2 \<noteq> 0) font_flags\<rparr>])))"

text \<open>
  \<open>enriched.sort(key=lambda x: (x["bbox"][1], x["bbox"][0]))\<close>: the key of every
  element is computed first, and subscripting a \<open>None\<close> bounding box raises
  \<open>TypeError\<close>; the sort is stable and compares the pairs lexicographically.
\<close>

fun sort_keys :: "enriched_block list \<Rightarrow> exn + ((rat \<times> rat) \<times> enriched_block) list" where
  "sort_keys [] = Inr []"
| "sort_keys (b # bs) =
     (case eb_bbox b of
        None \<Rightarrow> Inl TypeError
      | Some (x0, y0, x1, y1) \<Rightarrow>
         (case sort_keys bs of Inl e \<Rightarrow> Inl e | Inr ks \<Rightarrow> Inr (((y0, x0), b) # ks)))"

definition sort_blocks :: "enriched_block list \<Rightarrow> exn + enriched_block list" where
  "sort_blocks enriched =
     (case sort_keys enriched of Inl e \<Rightarrow> Inl e | Inr ks \<Rightarrow> Inr (map snd (sort_key fst ks)))"

text \<open>The two conditions of the classification loop.\<close>

definition section_heading :: "enriched_block \<Rightarrow> bool" where
  "section_heading b =
     (let lf = largest_font b; bold = is_bold b in 16 \<le> lf \<or> (14 \<le> lf \<and> bold))"

definition subsection_heading :: "enriched_block \<Rightarrow> bool" where
  "subsection_heading b =
     (let txt = eb_text b; lf = largest_font b; bold = is_bold b in
      ((13 \<le> lf \<and> lf < 16) \<or> (23 / 2 \<le> lf \<and> lf < 13 \<and> bold))
      \<or> (length (py_split txt) \<le> 4 \<and> bold))"

type_synonym heading_state = "content_item list \<times> string option \<times> string option"

text \<open>
  One iteration of the classification loop; the state is
  \<open>(paragraphs, last_section, last_subsection)\<close>.
\<close>

definition classify_block :: "enriched_block \<Rightarrow> heading_state \<Rightarrow> heading_state" where
  "classify_block b st =
     (case st of (paragraphs, last_section, last_subsection) \<Rightarrow>
        if section_heading b then (paragraphs, Some (eb_text b), None)
        else if subsection_heading b then (paragraphs, last_section, Some (eb_text b))
        else (paragraphs @ [Paragraph (section_label last_section) last_subsection (eb_text b)],
              last_section, last_subsection))"

definition classify_blocks :: "enriched_block list \<Rightarrow> heading_state \<Rightarrow> heading_state" where
  "classify_blocks bs st = fold classify_block bs st"

text \<open>The part of the function before the classification loop: \<open>enriched\<close>, sorted.\<close>

definition sorted_blocks :: "fitz_page \<Rightarrow> exn + enriched_block list" where
  "sorted_blocks page =
     (case enrich (case blocks page of None \<Rightarrow> [] | Some bs \<Rightarrow> bs) [] of
        Inl e \<Rightarrow> Inl e
      | Inr enriched \<Rightarrow> sort_blocks enriched)"

definition extract_text_and_headings ::
    "fitz_page \<Rightarrow> string option \<Rightarrow> string option \<Rightarrow> exn + heading_state" where
  "extract_text_and_headings page last_section last_subsection =
     (case sorted_blocks page of
        Inl e \<Rightarrow> Inl e
      | Inr enriched \<Rightarrow> Inr (classify_blocks enriched ([], last_section, last_subsection)))"

section \<open>build\_table\_from\_words\<close>

text \<open>A word of \<open>extract_words\<close>: a dictionary with keys \<open>text\<close>, \<open>top\<close>, \<open>x0\<close>.\<close>

record word =
  w_text :: "string option"
  w_top :: "rat option"
  w_x0 :: "rat option"

text \<open>\<open>w.get("text", "").strip()\<close>\<close>

definition word_text :: "word \<Rightarrow> string" where
  "word_text w = strip (case w_text w of None \<Rightarrow> [] | Some s \<Rightarrow> s)"

text \<open>
  \<open>rows = defaultdict(list)\<close>, as an association list in insertion order with
  distinct keys.
\<close>

type_synonym row_dict = "(rat \<times> (rat \<times> string) list) list"

fun rows_append :: "rat \<Rightarrow> rat \<times> string \<Rightarrow> row_dict \<Rightarrow> row_dict" where
  "rows_append y v [] = [(y, [v])]"
| "rows_append y v ((k, vs) # rest) =
     (if k = y then (k, vs @ [v]) # rest else (k, vs) # rows_append y v rest)"

definition rows_get :: "row_dict \<Rightarrow> rat \<Rightarrow> (rat \<times> string) list" where
  "rows_get rows y = (case map_of rows y of None \<Rightarrow> [] | Some vs \<Rightarrow> vs)"

text \<open>\<open>round(float(w["top"]) / y_tolerance) * y_tolerance\<close>\<close>

definition row_key :: "rat \<Rightarrow> rat \<Rightarrow> exn + rat" where
  "row_key y_tolerance t =
     (if y_tolerance = 0 then Inl ZeroDivisionError
      else Inr (of_int (py_round (t / y_tolerance)) * y_tolerance))"

fun collect_rows :: "word list \<Rightarrow> rat \<Rightarrow> row_dict \<Rightarrow> exn + row_dict" where
  "collect_rows [] y_tolerance rows = Inr rows"
| "collect_rows (w # ws) y_tolerance rows =
     (let txt = word_text w in
      if txt = [] then collect_rows ws y_tolerance rows
      else (case w_top w of
              None \<Rightarrow> Inl KeyError
            | Some t \<Rightarrow>
               (case row_key y_tolerance t of
                  Inl e \<Rightarrow> Inl e
                | Inr y \<Rightarrow>
                   (case w_x0 w of
                      None \<Rightarrow> Inl KeyError
                    | Some x \<Rightarrow> collect_rows ws y_tolerance (rows_append y (x, txt) rows)))))"

text \<open>The inner loop over \<open>row_words\<close>, with \<open>last_x\<close> and the \<open>row\<close> built so far.\<close>

fun emit_row :: "rat \<Rightarrow> (rat \<times> string) list \<Rightarrow> rat option \<Rightarrow> string list \<Rightarrow> string list" where
  "emit_row col_gap [] last_x row = row"
| "emit_row col_gap ((x, txt) # rest) last_x row =
     (let row' = (case last_x of
                    None \<Rightarrow> row
                  | Some lx \<Rightarrow> if col_gap < x - lx then row @ [[]] else row)
      in emit_row col_gap rest (Some x) (row' @ [txt]))"

definition build_row :: "rat \<Rightarrow> (rat \<times> string) list \<Rightarrow> string list" where
  "build_row col_gap vs = emit_row col_gap (sort_key fst vs) None []"

definition build_table_from_words :: "word list \<Rightarrow> rat \<Rightarrow> rat \<Rightarrow> exn + string list list" where
  "build_table_from_words words y_tolerance col_gap =
     (if words = [] then Inr []
      else (case collect_rows words y_tolerance [] of
              Inl e \<Rightarrow> Inl e
            | Inr rows \<Rightarrow>
                Inr (map (\<lambda>y. build_row col_gap (rows_get rows y)) (sort (map fst rows)))))"

section \<open>extract\_tables\<close>

text \<open>
  What the external extractors do for one page of one file: each call returns
  its tables (or words) or raises. \<open>plumber_tables\<close> and \<open>plumber_words\<close> stand
  for the whole of \<open>pdfplumber.open(pdf_path)\<close>, \<open>pdf.pages[page_num - 1]\<close> and
  the extraction call. A table that a call returns is a complete grid of cells,
  so reading and sanitizing it does not raise: inside a \<open>try\<close> only the extractor
  calls and \<open>build_table_from_words\<close> raise.
\<close>

record table_sources =
  camelot_lattice :: "exn + raw_table list"
  camelot_stream :: "exn + raw_table list"
  plumber_tables :: "exn + raw_table list"
  plumber_words :: "exn + word list"

text \<open>The calls \<open>extract_tables\<close> makes, recorded in order.\<close>

datatype call =
  CamelotLattice | CamelotStream | PlumberExtractTables | PlumberExtractWords | BuildTableFromWords

type_synonym tables_state = "content_item list \<times> call list"

text \<open>The loop \<open>for t in tables\<close> (and \<open>for tb in ptables\<close>) appending to \<open>results\<close>.\<close>

fun append_tables ::
    "raw_table list \<Rightarrow> string option \<Rightarrow> string option \<Rightarrow> content_item list \<Rightarrow> content_item list" where
  "append_tables [] last_section last_subsection results = results"
| "append_tables (t # ts) last_section last_subsection results =
     (let rows = sanitize_table t in
      if rows \<noteq> []
      then append_tables ts last_section last_subsection
             (results @ [Table (section_label last_section) last_subsection None (Some rows)])
      else append_tables ts last_section last_subsection results)"

text \<open>
  The body of each \<open>try\<close>: it runs on \<open>(results, calls)\<close> and either raises or
  ends, with \<open>True\<close> when it ended in \<open>return results\<close>. What it appended to
  \<open>results\<close> before raising stays.
\<close>

definition camelot_body ::
    "table_sources \<Rightarrow> string option \<Rightarrow> string option \<Rightarrow> tables_state \<Rightarrow> (exn + bool) \<times> tables_state" where
  "camelot_body src last_section last_subsection st =
     (case st of (results, calls) \<Rightarrow>
        (case camelot_lattice src of
           Inl e \<Rightarrow> (Inl e, (results, calls @ [CamelotLattice]))
         | Inr tables \<Rightarrow>
            (if length tables = 0
             then (case camelot_stream src of
                     Inl e \<Rightarrow> (Inl e, (results, calls @ [CamelotLattice, CamelotStream]))
                   | Inr tables' \<Rightarrow>
                      (let results' = append_tables tables' last_section last_subsection results
                       in (Inr (results' \<noteq> []), (results', calls @ [CamelotLattice, CamelotStream]))))
             else (let results' = append_tables tables last_section last_subsection results
                   in (Inr (results' \<noteq> []), (results', calls @ [CamelotLattice]))))))"

definition plumber_body ::
    "table_sources \<Rightarrow> string option \<Rightarrow> string option \<Rightarrow> tables_state \<Rightarrow> (exn + bool) \<times> tables_state" where
  "plumber_body src last_section last_subsection st =
     (case st of (results, calls) \<Rightarrow>
        (case plumber_tables src of
           Inl e \<Rightarrow> (Inl e, (results, calls @ [PlumberExtractTables]))
         | Inr ptables \<Rightarrow>
            (let results' = append_tables ptables last_section last_subsection results
             in (Inr (results' \<noteq> []), (results', calls @ [PlumberExtractTables])))))"

definition words_body ::
    "table_sources \<Rightarrow> string option \<Rightarrow> string option \<Rightarrow> tables_state \<Rightarrow> (exn + bool) \<times> tables_state" where
  "words_body src last_section last_subsection st =
     (case st of (results, calls) \<Rightarrow>
        (case plumber_words src of
           Inl e \<Rightarrow> (Inl e, (results, calls @ [PlumberExtractWords]))
         | Inr words \<Rightarrow>
            (case build_table_from_words words 3 20 of
               Inl e \<Rightarrow> (Inl e, (results, calls @ [PlumberExtractWords, BuildTableFromWords]))
             | Inr table \<Rightarrow>
                (Inr False,
                 (if table \<noteq> []
                  then results @
                    [Table (section_label last_section) last_subsection
                       (Some ''Reconstructed from word positions'')
                       (Some (sanitize_table (map (map Some) table)))]
                  else results,
                  calls @ [PlumberExtractWords, BuildTableFromWords])))))"

text \<open>\<open>try: ... except Exception: pass\<close>\<close>

definition try_except_pass :: "(exn + bool) \<times> tables_state \<Rightarrow> bool \<times> tables_state" where
  "try_except_pass r = (case r of (Inl e, st) \<Rightarrow> (False, st) | (Inr returned, st) \<Rightarrow> (returned, st))"

definition extract_tables ::
    "table_sources \<Rightarrow> string option \<Rightarrow> string option \<Rightarrow> (exn + content_item list) \<times> call list" where
  "extract_tables src last_section last_subsection =
     (case try_except_pass (camelot_body src last_section last_subsection ([], [])) of
        (returned1, st1) \<Rightarrow>
          if returned1 then (Inr (fst st1), snd st1)
          else (case try_except_pass (plumber_body src last_section last_subsection st1) of
                  (returned2, st2) \<Rightarrow>
                    if returned2 then (Inr (fst st2), snd st2)
                    else (case try_except_pass (words_body src last_section last_subsection st2) of
                            (returned3, st3) \<Rightarrow> (Inr (fst st3), snd st3))))"

section \<open>extract\_charts and parse\_pdf\<close>

definition extract_charts :: "fitz_page \<Rightarrow> string option \<Rightarrow> string option \<Rightarrow> content_item list" where
  "extract_charts page last_section last_subsection =
     (if images page = []
      then [Chart (section_label last_section) last_subsection
              (Some ''Chart (vector or non-extractable)'') None]
      else map (\<lambda>_. Chart (section_label last_section) last_subsection
                       (Some ''Chart image detected'') None) (images page))"

text \<open>
  A page of the document: the PyMuPDF page and what the table extractors do
  for its page number.
\<close>

record pdf_page =
  page :: fitz_page
  sources :: table_sources

record page_output =
  page_number :: nat
  content :: "content_item list"

text \<open>The loop of \<open>parse_pdf\<close> over \<open>enumerate(doc, start=1)\<close>.\<close>

fun parse_pages ::
    "pdf_page list \<Rightarrow> nat \<Rightarrow> string option \<Rightarrow> string option \<Rightarrow> page_output list \<Rightarrow> exn + page_output list" where
  "parse_pages [] page_num last_section last_subsection pages_output = Inr pages_output"
| "parse_pages (p # ps) page_num last_section last_subsection pages_output =
     (case extract_text_and_headings (page p) last_section last_subsection of
        Inl e \<Rightarrow> Inl e
      | Inr (paragraphs, last_section', last_subsection') \<Rightarrow>
         (case fst (extract_tables (sources p) last_section' last_subsection') of
            Inl e \<Rightarrow> Inl e
          | Inr tables \<Rightarrow>
             (let charts = extract_charts (page p) last_section' last_subsection' in
              parse_pages ps (page_num + 1) last_section' last_subsection'
                (pages_output @
                   [\<lparr>page_number = page_num, content = paragraphs @ tables @ charts\<rparr>]))))"

definition parse_pdf :: "pdf_page list \<Rightarrow> exn + page_output list" where
  "parse_pdf doc = parse_pages doc 1 None None []"

section \<open>Definitions used to state the properties\<close>

text \<open>
  What one word contributes to \<open>rows\<close> when no subscript raises: its row key,
  and the pair of its \<open>x0\<close> and stripped text. A word with blank text
  contributes nothing.
\<close>

definition word_entry :: "rat \<Rightarrow> word \<Rightarrow> (rat \<times> rat \<times> string) option" where
  "word_entry y_tolerance w =
     (let txt = word_text w in
      if txt = [] then None
      else (case w_top w of
              None \<Rightarrow> None
            | Some t \<Rightarrow>
               (case w_x0 w of
                  None \<Rightarrow> None
                | Some x \<Rightarrow> Some (of_int (py_round (t / y_tolerance)) * y_tolerance, x, txt))))"

definition word_entries :: "rat \<Rightarrow> word list \<Rightarrow> (rat \<times> rat \<times> string) list" where
  "word_entries y_tolerance ws = List.map_filter (word_entry y_tolerance) ws"

text \<open>The words of one row key, in input order, and the row keys in ascending order.\<close>

definition row_entries :: "rat \<Rightarrow> word list \<Rightarrow> rat \<Rightarrow> (rat \<times> string) list" where
  "row_entries y_tolerance ws y = map snd (filter (\<lambda>e. fst e = y) (word_entries y_tolerance ws))"

definition row_keys :: "rat \<Rightarrow> word list \<Rightarrow> rat list" where
  "row_keys y_tolerance ws = sort (remdups (map fst (word_entries y_tolerance ws)))"

text \<open>A word whose stripped text is empty.\<close>

definition blank_word :: "word \<Rightarrow> bool" where
  "blank_word w = (word_text w = [])"


text \<open>
  Example pages. \<open>text_block s z f y\<close> is a block of one line with one span of
  text \<open>s\<close>, font size \<open>z\<close> and flags \<open>f\<close>, at vertical position \<open>y\<close>.
  \<open>intro_page\<close> has a title at size 18 and a sentence at size 11;
  \<open>repeated_title_page\<close> repeats the title's text in a block at size 11.
\<close>

definition text_block :: "string \<Rightarrow> rat \<Rightarrow> int \<Rightarrow> rat \<Rightarrow> block" where
  "text_block s z f y =
     \<lparr>lines = Some [\<lparr>spans = Some [\<lparr>span_text = Some s, span_size = Some z, span_flags = Some f\<rparr>]\<rparr>],
      bbox = Some (0, y, 100, y + 10)\<rparr>"

definition intro_page :: fitz_page where
  "intro_page =
     \<lparr>blocks = Some [text_block ''Intro'' 18 0 0, text_block ''Hello world.'' 11 0 30], images = []\<rparr>"


text \<open>
  The three strategies of \<open>extract_tables\<close>, each with a failure counted as zero
  tables: the tables of camelot (lattice, or stream when lattice returns none),
  the tables of pdfplumber, and the table rebuilt from the page's words.
\<close>

definition camelot_tables :: "table_sources \<Rightarrow> raw_table list" where
  "camelot_tables src =
     (case camelot_lattice src of
        Inl e \<Rightarrow> []
      | Inr tables \<Rightarrow>
          if tables = [] then (case camelot_stream src of Inl e \<Rightarrow> [] | Inr tables' \<Rightarrow> tables')
          else tables)"

definition pdfplumber_tables :: "table_sources \<Rightarrow> raw_table list" where
  "pdfplumber_tables src = (case plumber_tables src of Inl e \<Rightarrow> [] | Inr ptables \<Rightarrow> ptables)"

definition word_table :: "table_sources \<Rightarrow> string list list" where
  "word_table src =
     (case plumber_words src of
        Inl e \<Rightarrow> []
      | Inr words \<Rightarrow>
          (case build_table_from_words words 3 20 of Inl e \<Rightarrow> [] | Inr table \<Rightarrow> table))"

text \<open>
  The items a strategy contributes: one per non-empty table of a structured
  extractor, with no description; one for a non-empty rebuilt table, with the
  description of the word-position fallback.
\<close>

definition structured_items ::
    "string option \<Rightarrow> string option \<Rightarrow> raw_table list \<Rightarrow> content_item list" where
  "structured_items last_section last_subsection tables =
     map (\<lambda>t. Table (section_label last_section) last_subsection None (Some (sanitize_table t)))
         (filter (\<lambda>t. t \<noteq> []) tables)"

definition word_items ::
    "string option \<Rightarrow> string option \<Rightarrow> string list list \<Rightarrow> content_item list" where
  "word_items last_section last_subsection table =
     (if table \<noteq> []
      then [Table (section_label last_section) last_subsection
              (Some ''Reconstructed from word positions'')
              (Some (sanitize_table (map (map Some) table)))]
      else [])"

text \<open>The calls made, strategy by strategy, until one contributes an item.\<close>

definition strategy_calls :: "table_sources \<Rightarrow> call list" where
  "strategy_calls src =
     [CamelotLattice]
     @ (if camelot_lattice src = Inr [] then [CamelotStream] else [])
     @ (if list_ex (\<lambda>t. t \<noteq> []) (camelot_tables src) then []
        else [PlumberExtractTables]
          @ (if list_ex (\<lambda>t. t \<noteq> []) (pdfplumber_tables src) then []
             else [PlumberExtractWords]
               @ (case plumber_words src of Inl e \<Rightarrow> [] | Inr words \<Rightarrow> [BuildTableFromWords])))"

text \<open>
  Example extractor behaviours for one page: camelot finds a table in lattice
  mode; camelot raises and pdfplumber finds a table; both structured extractors
  give nothing (lattice returns no table, stream and pdfplumber raise) and the
  page has words; every call raises; and the words lack their \<open>top\<close> key.
\<close>

definition sources_lattice :: table_sources where
  "sources_lattice =
     \<lparr>camelot_lattice = Inr [[[Some '' a '', None]]], camelot_stream = Inr [],
      plumber_tables = Inr [], plumber_words = Inr []\<rparr>"

definition sources_plumber :: table_sources where
  "sources_plumber =
     \<lparr>camelot_lattice = Inl (ExternalError ''lattice''), camelot_stream = Inr [],
      plumber_tables = Inr [[[Some ''b'']]], plumber_words = Inr []\<rparr>"

definition sources_words :: table_sources where
  "sources_words =
     \<lparr>camelot_lattice = Inr [], camelot_stream = Inl (ExternalError ''stream''),
      plumber_tables = Inl (ExternalError ''plumber''),
      plumber_words = Inr [\<lparr>w_text = Some ''c'', w_top = Some 1, w_x0 = Some 0\<rparr>]\<rparr>"

definition sources_all_fail :: table_sources where
  "sources_all_fail =
     \<lparr>camelot_lattice = Inl (ExternalError ''lattice''), camelot_stream = Inl (ExternalError ''stream''),
      plumber_tables = Inl (ExternalError ''plumber''),
      plumber_words = Inl (ExternalError ''words'')\<rparr>"

definition sources_bad_word :: table_sources where
  "sources_bad_word =
     \<lparr>camelot_lattice = Inr [], camelot_stream = Inr [], plumber_tables = Inr [],
      plumber_words = Inr [\<lparr>w_text = Some ''c'', w_top = None, w_x0 = Some 0\<rparr>]\<rparr>"

text \<open>
  A page with no section heading among its blocks, and two malformed pages: a
  text block with no \<open>bbox\<close> key, and a span with no \<open>size\<close> key.
\<close>

definition no_section_heading :: "fitz_page \<Rightarrow> bool" where
  "no_section_heading pg =
     (case sorted_blocks pg of
        Inl e \<Rightarrow> True
      | Inr enriched \<Rightarrow> list_all (\<lambda>b. \<not> section_heading b) enriched)"

definition missing_bbox_page :: fitz_page where
  "missing_bbox_page =
     \<lparr>blocks = Some
        [\<lparr>lines = Some [\<lparr>spans = Some [\<lparr>span_text = Some ''Hello'', span_size = Some 11,
                                          span_flags = Some 0\<rparr>]\<rparr>],
          bbox = None\<rparr>],
      images = []\<rparr>"

definition missing_size_page :: fitz_page where
  "missing_size_page =
     \<lparr>blocks = Some
        [\<lparr>lines = Some [\<lparr>spans = Some [\<lparr>span_text = Some ''Hello'', span_size = None,
                                          span_flags = Some 0\<rparr>]\<rparr>],
          bbox = Some (0, 0, 100, 10)\<rparr>],
      images = []\<rparr>"

text \<open>
  A document of two pages: a page with one sentence, two images and a table
  rebuilt from its words, then \<open>intro_page\<close> with a table found by camelot.
\<close>

definition plain_page :: pdf_page where
  "plain_page =
     \<lparr>page = \<lparr>blocks = Some [text_block ''Hello world.'' 11 0 30], images = [7, 8]\<rparr>,
      sources = sources_words\<rparr>"

definition titled_page :: pdf_page where
  "titled_page = \<lparr>page = intro_page, sources = sources_lattice\<rparr>"

text \<open>Appending one entry to \<open>rows\<close>.\<close>

definition add_entry :: "rat \<times> rat \<times> string \<Rightarrow> row_dict \<Rightarrow> row_dict" where
  "add_entry e r = rows_append (fst e) (snd e) r"

section \<open>Properties\<close>

subsection \<open>Whitespace stripping\<close>











lemma rows_get_append:
  "rows_get (rows_append y v r) k = (if k = y then rows_get r y @ [v] else rows_get r k)"
  by (induction y v r rule: rows_append.induct) (auto simp: rows_get_def)

lemma rows_append_keys: "fst ` set (rows_append y v r) = insert y (fst ` set r)"
  by (induction y v r rule: rows_append.induct) auto

lemma rows_append_distinct: "distinct (map fst r) \<Longrightarrow> distinct (map fst (rows_append y v r))"
  by (induction y v r rule: rows_append.induct) (auto simp: rows_append_keys)


lemma fold_add_get:
  "rows_get (fold add_entry es r) k = rows_get r k @ map snd (filter (\<lambda>e. fst e = k) es)"
  by (induction es arbitrary: r) (auto simp: add_entry_def rows_get_append)

lemma fold_add_keys: "fst ` set (fold add_entry es r) = fst ` set r \<union> fst ` set es"
  by (induction es arbitrary: r) (auto simp: add_entry_def rows_append_keys)

lemma fold_add_distinct: "distinct (map fst r) \<Longrightarrow> distinct (map fst (fold add_entry es r))"
  by (induction es arbitrary: r) (auto simp: add_entry_def rows_append_distinct)

lemma collect_rows_fold:
  "collect_rows ws tol r = Inr rows \<Longrightarrow> rows = fold add_entry (word_entries tol ws) r"
proof (induction ws arbitrary: r)
  case Nil then show ?case by (simp add: word_entries_def List.map_filter_simps)
next
  case (Cons w ws)
  show ?case
  proof (cases "word_entry tol w")
    case None
    with Cons.prems have "collect_rows ws tol r = Inr rows"
      by (auto simp: word_entry_def Let_def row_key_def split: if_splits option.splits sum.splits)
    then show ?thesis using Cons.IH None by (simp add: word_entries_def List.map_filter_simps)
  next
    case (Some e)
    with Cons.prems have "collect_rows ws tol (add_entry e r) = Inr rows"
      by (auto simp: word_entry_def Let_def row_key_def add_entry_def split: if_splits option.splits sum.splits)
    then show ?thesis using Cons.IH Some by (simp add: word_entries_def List.map_filter_simps)
  qed
qed

lemma build_table_rows:
  assumes "build_table_from_words ws tol g = Inr table"
  shows "table = map (\<lambda>y. build_row g (row_entries tol ws y)) (row_keys tol ws)"
proof (cases "ws = []")
  case True
  with assms show ?thesis
    by (simp add: build_table_from_words_def row_keys_def word_entries_def List.map_filter_simps)
next
  case False
  with assms obtain rows where c: "collect_rows ws tol [] = Inr rows"
    and t: "table = map (\<lambda>y. build_row g (rows_get rows y)) (sort (map fst rows))"
    by (auto simp: build_table_from_words_def split: sum.splits)
  have rows: "rows = fold add_entry (word_entries tol ws) []" using collect_rows_fold[OF c] .
  have get: "rows_get rows y = row_entries tol ws y" for y
    using fold_add_get[of "word_entries tol ws" "[]" y]
    by (simp add: rows row_entries_def) (simp add: rows_get_def)
  have d: "distinct (map fst rows)" unfolding rows by (rule fold_add_distinct) simp
  have s: "set (map fst rows) = set (map fst (word_entries tol ws))"
    using fold_add_keys[of "word_entries tol ws" "[]"] by (simp add: rows)
  have "sort (map fst rows) = row_keys tol ws"
    unfolding row_keys_def
    by (rule sorted_distinct_set_unique) (use d s in auto)
  then show ?thesis by (simp add: t get)
qed

subsection \<open>Dropping blank words\<close>










subsection \<open>Cells of a row\<close>









subsection \<open>Row keys\<close>

lemma py_round_bounds: "of_int (py_round x) - 1 / 2 \<le> x \<and> x \<le> of_int (py_round x) + 1 / 2"
proof -
  define f where "f = \<lfloor>x\<rfloor>"
  have h: "of_int f \<le> x" "x < of_int f + 1" unfolding f_def by linarith+
  show ?thesis unfolding py_round_def Let_def f_def[symmetric] using h by auto
qed

lemma py_round_near:
  fixes t1 t2 tol :: rat
  assumes "0 < tol" "\<bar>t1 - t2\<bar> < tol"
  shows "\<bar>py_round (t1 / tol) - py_round (t2 / tol)\<bar> \<le> 1"
proof -
  have "\<bar>t1 / tol - t2 / tol\<bar> < 1"
    using assms by (simp add: diff_divide_distrib[symmetric] abs_less_iff pos_divide_less_eq pos_less_divide_eq)
  moreover note py_round_bounds[of "t1 / tol"] py_round_bounds[of "t2 / tol"]
  ultimately have "\<bar>(of_int (py_round (t1 / tol)) :: rat) - of_int (py_round (t2 / tol))\<bar> < 2"
    by linarith
  then have "(of_int \<bar>py_round (t1 / tol) - py_round (t2 / tol)\<bar> :: rat) < of_int 2" by simp
  then have "\<bar>py_round (t1 / tol) - py_round (t2 / tol)\<bar> < 2" by (simp only: of_int_less_iff)
  then show ?thesis by simp
qed

lemma py_round_same:
  fixes t1 t2 tol :: rat
  assumes "0 < tol" "py_round (t1 / tol) = py_round (t2 / tol)"
  shows "\<bar>t1 - t2\<bar> \<le> tol"
proof -
  from py_round_bounds[of "t1 / tol"] py_round_bounds[of "t2 / tol"] assms(2)
  have "\<bar>t1 / tol - t2 / tol\<bar> \<le> 1" by linarith
  then have "\<bar>(t1 - t2) / tol\<bar> \<le> 1" by (simp add: diff_divide_distrib)
  then show ?thesis using assms(1) by (simp add: abs_le_iff pos_divide_le_eq pos_le_divide_eq)
qed

lemma emit_row_set: "set row \<union> snd ` set ps \<subseteq> set (emit_row g ps lx row)"
proof (induction ps arbitrary: lx row)
  case Nil then show ?case by simp
next
  case (Cons p ps)
  obtain x t where p: "p = (x, t)" by (cases p)
  show ?case using Cons.IH[of "(case lx of None \<Rightarrow> row | Some l \<Rightarrow> if g < x - l then row @ [[]] else row) @ [t]" "Some x"]
    by (auto simp: p Let_def split: option.splits if_splits)
qed

lemma build_row_texts: "v \<in> set vs \<Longrightarrow> snd v \<in> set (build_row g vs)"
  using emit_row_set[of "[]" "sort_key fst vs" g None] by (auto simp: build_row_def)

lemma collect_rows_ok:
  "collect_rows ws tol r = Inr rows \<Longrightarrow> w \<in> set ws \<Longrightarrow> \<not> blank_word w \<Longrightarrow>
     tol \<noteq> 0 \<and> (\<exists>t x. w_top w = Some t \<and> w_x0 w = Some x)"
proof (induction ws arbitrary: r)
  case Nil then show ?case by simp
next
  case (Cons a ws)
  show ?case
  proof (cases "a = w")
    case True
    with Cons.prems show ?thesis
      by (auto simp: blank_word_def Let_def row_key_def split: option.splits sum.splits if_splits)
  next
    case False
    with Cons.prems have w: "w \<in> set ws" by simp
    from Cons.prems(1) obtain r' where "collect_rows ws tol r' = Inr rows"
      by (auto simp: Let_def split: option.splits sum.splits if_splits)
    then show ?thesis using Cons.IH w Cons.prems(3) by blast
  qed
qed

lemma word_entries_in:
  "w \<in> set ws \<Longrightarrow> word_entry tol w = Some e \<Longrightarrow> e \<in> set (word_entries tol ws)"
  by (induction ws) (auto simp: word_entries_def split: option.splits)

lemma row_key_Inr: "tol \<noteq> 0 \<Longrightarrow> row_key tol t = Inr (of_int (py_round (t / tol)) * tol)"
  by (simp add: row_key_def)

lemma word_entry_of:
  "\<not> blank_word w \<Longrightarrow> w_top w = Some t \<Longrightarrow> w_x0 w = Some x \<Longrightarrow>
     word_entry tol w = Some (of_int (py_round (t / tol)) * tol, x, word_text w)"
  by (simp add: word_entry_def blank_word_def Let_def)

lemma row_keys_set: "set (row_keys tol ws) = fst ` set (word_entries tol ws)"
  by (simp add: row_keys_def)

lemma row_entries_in: "(y, v) \<in> set (word_entries tol ws) \<Longrightarrow> v \<in> set (row_entries tol ws y)"
  by (force simp: row_entries_def)

lemma word_in_row:
  assumes b: "build_table_from_words ws tol g = Inr table"
    and w: "w \<in> set ws" "\<not> blank_word w" "w_top w = Some t" "w_x0 w = Some x"
  shows "tol \<noteq> 0 \<and> (\<exists>y \<in> set (row_keys tol ws). row_key tol t = Inr y
           \<and> (x, word_text w) \<in> set (row_entries tol ws y)
           \<and> build_row g (row_entries tol ws y) \<in> set table
           \<and> word_text w \<in> set (build_row g (row_entries tol ws y)))"
proof -
  from w(1) have "ws \<noteq> []" by auto
  with b obtain rows where c: "collect_rows ws tol [] = Inr rows"
    by (auto simp: build_table_from_words_def split: sum.splits)
  from collect_rows_ok[OF c w(1,2)] have tol: "tol \<noteq> 0" by simp
  let ?y = "of_int (py_round (t / tol)) * tol"
  have e: "(?y, x, word_text w) \<in> set (word_entries tol ws)"
    using word_entries_in[OF w(1) word_entry_of[OF w(2,3,4)]] .
  then have y: "?y \<in> set (row_keys tol ws)" by (force simp: row_keys_set)
  have v: "(x, word_text w) \<in> set (row_entries tol ws ?y)" using e by (rule row_entries_in)
  have r: "build_row g (row_entries tol ws ?y) \<in> set table"
    using y by (simp add: build_table_rows[OF b])
  have m: "word_text w \<in> set (build_row g (row_entries tol ws ?y))"
    using build_row_texts[OF v] by simp
  show ?thesis using tol y v r m row_key_Inr[OF tol] by blast
qed

text \<open>
  C5 (amended). A word's row key is \<open>round(top / y_tolerance) * y_tolerance\<close>,
  rounding to the nearest integer with ties to even. Two words with the same
  row key end up in the same output row: the row built from the words of that
  key holds both texts. Words whose tops differ by less than a positive
  \<open>y_tolerance\<close> get row keys that differ by at most \<open>y_tolerance\<close> (the same
  row or two neighbouring rows), and two words of one row have tops that differ
  by at most \<open>y_tolerance\<close>.
\<close>

theorem equal_row_key_same_row:
  assumes "build_table_from_words ws tol g = Inr table"
    and "w1 \<in> set ws" "\<not> blank_word w1" "w_top w1 = Some t1" "w_x0 w1 = Some x1"
    and "w2 \<in> set ws" "\<not> blank_word w2" "w_top w2 = Some t2" "w_x0 w2 = Some x2"
  shows "(row_key tol t1 = row_key tol t2 \<longrightarrow>
            (\<exists>y \<in> set (row_keys tol ws).
                row_key tol t1 = Inr y
              \<and> (x1, word_text w1) \<in> set (row_entries tol ws y)
              \<and> (x2, word_text w2) \<in> set (row_entries tol ws y)
              \<and> build_row g (row_entries tol ws y) \<in> set table
              \<and> word_text w1 \<in> set (build_row g (row_entries tol ws y))
              \<and> word_text w2 \<in> set (build_row g (row_entries tol ws y))))
       \<and> (0 < tol \<and> \<bar>t1 - t2\<bar> < tol \<longrightarrow>
            (\<exists>y1 y2. row_key tol t1 = Inr y1 \<and> row_key tol t2 = Inr y2 \<and> \<bar>y1 - y2\<bar> \<le> tol))
       \<and> (0 < tol \<and> row_key tol t1 = row_key tol t2 \<longrightarrow> \<bar>t1 - t2\<bar> \<le> tol)"
proof (intro conjI impI)
  note r1 = word_in_row[OF assms(1) assms(2,3,4,5)]
  note r2 = word_in_row[OF assms(1) assms(6,7,8,9)]
  from r1 have tol: "tol \<noteq> 0" by simp
  {
    assume eq: "row_key tol t1 = row_key tol t2"
    from r1 obtain y where y: "y \<in> set (row_keys tol ws)" "row_key tol t1 = Inr y"
      "(x1, word_text w1) \<in> set (row_entries tol ws y)"
      "build_row g (row_entries tol ws y) \<in> set table"
      "word_text w1 \<in> set (build_row g (row_entries tol ws y))" by blast
    from r2 obtain y' where y': "row_key tol t2 = Inr y'"
      "(x2, word_text w2) \<in> set (row_entries tol ws y')"
      "word_text w2 \<in> set (build_row g (row_entries tol ws y'))" by blast
    from eq y(2) y'(1) have "y' = y" by simp
    with y y' show "\<exists>y \<in> set (row_keys tol ws).
                row_key tol t1 = Inr y
              \<and> (x1, word_text w1) \<in> set (row_entries tol ws y)
              \<and> (x2, word_text w2) \<in> set (row_entries tol ws y)
              \<and> build_row g (row_entries tol ws y) \<in> set table
              \<and> word_text w1 \<in> set (build_row g (row_entries tol ws y))
              \<and> word_text w2 \<in> set (build_row g (row_entries tol ws y))" by blast
  }
  {
    assume h: "0 < tol \<and> \<bar>t1 - t2\<bar> < tol"
    let ?r1 = "py_round (t1 / tol)" and ?r2 = "py_round (t2 / tol)"
    from h have "\<bar>?r1 - ?r2\<bar> \<le> 1" using py_round_near by blast
    then have "(of_int \<bar>?r1 - ?r2\<bar> :: rat) \<le> 1" by (simp only: of_int_le_1_iff)
    then have "\<bar>(of_int ?r1 :: rat) - of_int ?r2\<bar> * tol \<le> 1 * tol"
      using h by (intro mult_right_mono) simp_all
    moreover have "\<bar>of_int ?r1 * tol - of_int ?r2 * tol\<bar> = \<bar>(of_int ?r1 :: rat) - of_int ?r2\<bar> * tol"
      using h by (simp add: left_diff_distrib[symmetric] abs_mult)
    ultimately have "\<bar>of_int ?r1 * tol - of_int ?r2 * tol\<bar> \<le> tol" by simp
    then show "\<exists>y1 y2. row_key tol t1 = Inr y1 \<and> row_key tol t2 = Inr y2 \<and> \<bar>y1 - y2\<bar> \<le> tol"
      using row_key_Inr[OF tol] by simp
  }
  {
    assume h: "0 < tol \<and> row_key tol t1 = row_key tol t2"
    then have "py_round (t1 / tol) = py_round (t2 / tol)" using tol by (simp add: row_key_def)
    then show "\<bar>t1 - t2\<bar> \<le> tol" using h py_round_same by blast
  }
qed

theorem equal_row_key_same_row_witness:
  "build_table_from_words
     [\<lparr>w_text = Some ''a'', w_top = Some 1, w_x0 = Some 0\<rparr>,
      \<lparr>w_text = Some ''b'', w_top = Some (7 / 5), w_x0 = Some 10\<rparr>] 3 20 = Inr [[''a'', ''b'']]
   \<and> row_key 3 1 = row_key 3 (7 / 5)
   \<and> \<bar>(1 :: rat) - 7 / 5\<bar> < 3
   \<and> (\<exists>y \<in> set (row_keys 3
              [\<lparr>w_text = Some ''a'', w_top = Some 1, w_x0 = Some 0\<rparr>,
               \<lparr>w_text = Some ''b'', w_top = Some (7 / 5), w_x0 = Some 10\<rparr>]).
          row_key 3 1 = Inr y
        \<and> build_row 20 (row_entries 3
              [\<lparr>w_text = Some ''a'', w_top = Some 1, w_x0 = Some 0\<rparr>,
               \<lparr>w_text = Some ''b'', w_top = Some (7 / 5), w_x0 = Some 10\<rparr>] y)
            \<in> set [[''a'', ''b'']])
   \<and> (\<exists>y1 y2. row_key 3 1 = Inr y1 \<and> row_key 3 (7 / 5) = Inr y2 \<and> \<bar>y1 - y2\<bar> \<le> 3)
   \<and> \<bar>(1 :: rat) - 7 / 5\<bar> \<le> 3"
proof -
  let ?w1 = "\<lparr>w_text = Some ''a'', w_top = Some 1, w_x0 = Some 0\<rparr>"
  let ?w2 = "\<lparr>w_text = Some ''b'', w_top = Some (7 / 5), w_x0 = Some 10\<rparr>"
  have b: "build_table_from_words [?w1, ?w2] 3 20 = Inr [[''a'', ''b'']]" by code_simp
  have n1: "\<not> blank_word ?w1" by code_simp
  have n2: "\<not> blank_word ?w2" by code_simp
  have k: "row_key 3 1 = row_key 3 (7 / 5)" by code_simp
  have d: "\<bar>(1 :: rat) - 7 / 5\<bar> < 3" by simp
  note t = equal_row_key_same_row[OF b, of ?w1 1 0 ?w2 "7 / 5" 10]
  have t': "(row_key 3 1 = row_key 3 (7 / 5) \<longrightarrow>
            (\<exists>y \<in> set (row_keys 3 [?w1, ?w2]).
                row_key 3 1 = Inr y
              \<and> (0, word_text ?w1) \<in> set (row_entries 3 [?w1, ?w2] y)
              \<and> (10, word_text ?w2) \<in> set (row_entries 3 [?w1, ?w2] y)
              \<and> build_row 20 (row_entries 3 [?w1, ?w2] y) \<in> set [[''a'', ''b'']]
              \<and> word_text ?w1 \<in> set (build_row 20 (row_entries 3 [?w1, ?w2] y))
              \<and> word_text ?w2 \<in> set (build_row 20 (row_entries 3 [?w1, ?w2] y))))
       \<and> ((0 :: rat) < 3 \<and> \<bar>(1 :: rat) - 7 / 5\<bar> < 3 \<longrightarrow>
            (\<exists>y1 y2. row_key 3 1 = Inr y1 \<and> row_key 3 (7 / 5) = Inr y2 \<and> \<bar>y1 - y2\<bar> \<le> 3))
       \<and> ((0 :: rat) < 3 \<and> row_key 3 1 = row_key 3 (7 / 5) \<longrightarrow> \<bar>(1 :: rat) - 7 / 5\<bar> \<le> 3)"
    by (rule t) (simp_all add: n1 n2)
  have p: "(0 :: rat) < 3" by simp
  from t' k have c1: "\<exists>y \<in> set (row_keys 3 [?w1, ?w2]).
          row_key 3 1 = Inr y
        \<and> build_row 20 (row_entries 3 [?w1, ?w2] y) \<in> set [[''a'', ''b'']]" by blast
  from t' p d have c2: "\<exists>y1 y2. row_key 3 1 = Inr y1 \<and> row_key 3 (7 / 5) = Inr y2 \<and> \<bar>y1 - y2\<bar> \<le> 3"
    by blast
  from t' p k have c3: "\<bar>(1 :: rat) - 7 / 5\<bar> \<le> 3" by blast
  from b k d c1 c2 c3 show ?thesis by blast
qed

text \<open>
  C5 as stated fails: tops 1 and 2 differ by less than the default
  \<open>y_tolerance = 3\<close>, but 1/3 rounds to 0 and 2/3 rounds to 1, so the row keys
  are 0 and 3 and the two words land in different rows.
\<close>

theorem near_tops_two_rows:
  "\<bar>(1 :: rat) - 2\<bar> < 3
   \<and> row_key 3 1 = Inr 0 \<and> row_key 3 2 = Inr 3
   \<and> build_table_from_words
        [\<lparr>w_text = Some ''a'', w_top = Some 1, w_x0 = Some 0\<rparr>,
         \<lparr>w_text = Some ''b'', w_top = Some 2, w_x0 = Some 10\<rparr>] 3 20 = Inr [[''a''], [''b'']]"
proof (intro conjI)
  show "\<bar>(1 :: rat) - 2\<bar> < 3" by simp
  show "row_key 3 1 = Inr 0" by code_simp
  show "row_key 3 2 = Inr 3" by code_simp
  show "build_table_from_words
        [\<lparr>w_text = Some ''a'', w_top = Some 1, w_x0 = Some 0\<rparr>,
         \<lparr>w_text = Some ''b'', w_top = Some 2, w_x0 = Some 10\<rparr>] 3 20 = Inr [[''a''], [''b'']]"
    by code_simp
qed

subsection \<open>The classification loop\<close>

lemma classify_block_section:
  "section_heading b \<Longrightarrow> classify_block b (ps, sec, sub) = (ps, Some (eb_text b), None)"
  by (simp add: classify_block_def)

lemma classify_block_subsection:
  "\<not> section_heading b \<Longrightarrow> subsection_heading b \<Longrightarrow>
     classify_block b (ps, sec, sub) = (ps, sec, Some (eb_text b))"
  by (simp add: classify_block_def)

lemma classify_block_paragraph:
  "\<not> section_heading b \<Longrightarrow> \<not> subsection_heading b \<Longrightarrow>
     classify_block b (ps, sec, sub)
       = (ps @ [Paragraph (section_label sec) sub (eb_text b)], sec, sub)"
  by (simp add: classify_block_def)

lemma classify_blocks_Cons: "classify_blocks (b # bs) st = classify_blocks bs (classify_block b st)"
  by (simp add: classify_blocks_def)

lemma classify_blocks_append:
  "classify_blocks (bs1 @ bs2) st = classify_blocks bs2 (classify_blocks bs1 st)"
  by (simp add: classify_blocks_def)



lemma classify_blocks_no_section:
  "\<forall>b \<in> set bs. \<not> section_heading b \<Longrightarrow>
     fst (snd (classify_blocks bs (ps, sec, sub))) = sec"
proof (induction bs arbitrary: ps sub)
  case Nil then show ?case by (simp add: classify_blocks_def)
next
  case (Cons b bs)
  then show ?case
    by (cases "subsection_heading b")
       (simp_all add: classify_blocks_Cons classify_block_subsection classify_block_paragraph)
qed






subsection \<open>The table strategies\<close>

lemma sanitize_table_Nil: "sanitize_table t = [] \<longleftrightarrow> t = []"
  by (simp add: sanitize_table_def)

lemma append_tables_eq:
  "append_tables ts sec sub res = res @ structured_items sec sub ts"
  by (induction ts arbitrary: res)
     (simp_all add: structured_items_def Let_def sanitize_table_Nil)

lemma structured_items_Nil: "structured_items sec sub ts = [] \<longleftrightarrow> \<not> list_ex (\<lambda>t. t \<noteq> []) ts"
  by (simp add: structured_items_def filter_empty_conv list_ex_iff)

lemma structured_items_empty [simp]: "structured_items sec sub [] = []"
  by (simp add: structured_items_def)

lemma camelot_body_eq:
  "try_except_pass (camelot_body src sec sub ([], []))
     = (list_ex (\<lambda>t. t \<noteq> []) (camelot_tables src),
        (structured_items sec sub (camelot_tables src),
         [CamelotLattice] @ (if camelot_lattice src = Inr [] then [CamelotStream] else [])))"
  by (auto simp: try_except_pass_def camelot_body_def camelot_tables_def Let_def append_tables_eq
        structured_items_Nil
      split: sum.splits)

lemma plumber_body_eq:
  "try_except_pass (plumber_body src sec sub ([], calls))
     = (list_ex (\<lambda>t. t \<noteq> []) (pdfplumber_tables src),
        (structured_items sec sub (pdfplumber_tables src), calls @ [PlumberExtractTables]))"
  by (auto simp: try_except_pass_def plumber_body_def pdfplumber_tables_def Let_def append_tables_eq
        structured_items_Nil
      split: sum.splits)

lemma words_body_eq:
  "try_except_pass (words_body src sec sub ([], calls))
     = (False,
        (word_items sec sub (word_table src),
         calls @ [PlumberExtractWords]
           @ (case plumber_words src of Inl e \<Rightarrow> [] | Inr words \<Rightarrow> [BuildTableFromWords])))"
  by (auto simp: try_except_pass_def words_body_def word_table_def word_items_def
      split: sum.splits)

lemma extract_tables_eq:
  "extract_tables src sec sub =
     (Inr (if list_ex (\<lambda>t. t \<noteq> []) (camelot_tables src)
           then structured_items sec sub (camelot_tables src)
           else if list_ex (\<lambda>t. t \<noteq> []) (pdfplumber_tables src)
           then structured_items sec sub (pdfplumber_tables src)
           else word_items sec sub (word_table src)),
      strategy_calls src)"
proof -
  have e: "structured_items sec sub (camelot_tables src) = []"
    if "\<not> list_ex (\<lambda>t. t \<noteq> []) (camelot_tables src)"
    using that by (simp add: structured_items_Nil)
  have e': "structured_items sec sub (pdfplumber_tables src) = []"
    if "\<not> list_ex (\<lambda>t. t \<noteq> []) (pdfplumber_tables src)"
    using that by (simp add: structured_items_Nil)
  show ?thesis
    by (simp add: extract_tables_def camelot_body_eq plumber_body_eq words_body_eq
          strategy_calls_def e e')
qed

lemma strategy_calls_subseq:
  "subseq (strategy_calls src)
     [CamelotLattice, CamelotStream, PlumberExtractTables, PlumberExtractWords, BuildTableFromWords]"
  by (simp add: strategy_calls_def split: sum.splits)

lemma extract_tables_items:
  "fst (extract_tables src sec sub) =
     Inr (if list_ex (\<lambda>t. t \<noteq> []) (camelot_tables src)
           then structured_items sec sub (camelot_tables src)
           else if list_ex (\<lambda>t. t \<noteq> []) (pdfplumber_tables src)
           then structured_items sec sub (pdfplumber_tables src)
           else word_items sec sub (word_table src))"
  by (simp add: extract_tables_eq)





text \<open>
  C3. \<open>extract_tables\<close> tries its strategies in a fixed order: camelot in lattice
  mode, then in stream mode exactly when lattice returned no table, then
  pdfplumber's table extractor, then the table rebuilt from the page's words. It
  returns the items of the first strategy that gives at least one non-empty
  table: when camelot does, pdfplumber and the word fallback are not called;
  when camelot gives none and pdfplumber does, the word fallback is not called.
  An item from a structured extractor has no description; the item rebuilt from
  words has the description "Reconstructed from word positions".
\<close>

theorem strategies_in_order:
  assumes "extract_tables src sec sub = (r, calls)"
  shows "subseq calls
           [CamelotLattice, CamelotStream, PlumberExtractTables, PlumberExtractWords,
            BuildTableFromWords]
       \<and> calls \<noteq> [] \<and> hd calls = CamelotLattice
       \<and> (CamelotStream \<in> set calls \<longleftrightarrow> camelot_lattice src = Inr [])
       \<and> (list_ex (\<lambda>t. t \<noteq> []) (camelot_tables src) \<longrightarrow>
             r = Inr (structured_items sec sub (camelot_tables src))
           \<and> PlumberExtractTables \<notin> set calls
           \<and> PlumberExtractWords \<notin> set calls \<and> BuildTableFromWords \<notin> set calls)
       \<and> (\<not> list_ex (\<lambda>t. t \<noteq> []) (camelot_tables src)
            \<and> list_ex (\<lambda>t. t \<noteq> []) (pdfplumber_tables src) \<longrightarrow>
             r = Inr (structured_items sec sub (pdfplumber_tables src))
           \<and> PlumberExtractTables \<in> set calls
           \<and> PlumberExtractWords \<notin> set calls \<and> BuildTableFromWords \<notin> set calls)
       \<and> (\<not> list_ex (\<lambda>t. t \<noteq> []) (camelot_tables src)
            \<and> \<not> list_ex (\<lambda>t. t \<noteq> []) (pdfplumber_tables src) \<longrightarrow>
             r = Inr (word_items sec sub (word_table src))
           \<and> PlumberExtractTables \<in> set calls \<and> PlumberExtractWords \<in> set calls)
       \<and> (\<forall>it \<in> set (structured_items sec sub tables). it_description it = None)
       \<and> (\<forall>it \<in> set (word_items sec sub table).
             it_description it = Some ''Reconstructed from word positions'')"
proof -
  from assms have r: "r = Inr (if list_ex (\<lambda>t. t \<noteq> []) (camelot_tables src)
           then structured_items sec sub (camelot_tables src)
           else if list_ex (\<lambda>t. t \<noteq> []) (pdfplumber_tables src)
           then structured_items sec sub (pdfplumber_tables src)
           else word_items sec sub (word_table src))"
    and c: "calls = strategy_calls src"
    by (simp_all add: extract_tables_eq)
  have 1: "subseq calls
           [CamelotLattice, CamelotStream, PlumberExtractTables, PlumberExtractWords,
            BuildTableFromWords]"
    unfolding c by (rule strategy_calls_subseq)
  have 2: "calls \<noteq> [] \<and> hd calls = CamelotLattice" by (simp add: c strategy_calls_def)
  have 3: "CamelotStream \<in> set calls \<longleftrightarrow> camelot_lattice src = Inr []"
    by (simp add: c strategy_calls_def split: sum.splits)
  have 4: "r = Inr (structured_items sec sub (camelot_tables src))
           \<and> PlumberExtractTables \<notin> set calls
           \<and> PlumberExtractWords \<notin> set calls \<and> BuildTableFromWords \<notin> set calls"
    if "list_ex (\<lambda>t. t \<noteq> []) (camelot_tables src)"
    using that by (simp add: r c strategy_calls_def)
  have 5: "r = Inr (structured_items sec sub (pdfplumber_tables src))
           \<and> PlumberExtractTables \<in> set calls
           \<and> PlumberExtractWords \<notin> set calls \<and> BuildTableFromWords \<notin> set calls"
    if "\<not> list_ex (\<lambda>t. t \<noteq> []) (camelot_tables src)
            \<and> list_ex (\<lambda>t. t \<noteq> []) (pdfplumber_tables src)"
    using that by (simp add: r c strategy_calls_def)
  have 6: "r = Inr (word_items sec sub (word_table src))
           \<and> PlumberExtractTables \<in> set calls \<and> PlumberExtractWords \<in> set calls"
    if "\<not> list_ex (\<lambda>t. t \<noteq> []) (camelot_tables src)
            \<and> \<not> list_ex (\<lambda>t. t \<noteq> []) (pdfplumber_tables src)"
    using that by (simp add: r c strategy_calls_def)
  have 7: "\<forall>it \<in> set (structured_items sec sub tables). it_description it = None"
    by (auto simp: structured_items_def)
  have 8: "\<forall>it \<in> set (word_items sec sub table).
             it_description it = Some ''Reconstructed from word positions''"
    by (simp add: word_items_def)
  from 1 2 3 4 5 6 7 8 show ?thesis by blast
qed

theorem strategies_in_order_witness:
  "extract_tables sources_lattice None None
     = (Inr [Table ''Unknown'' None None (Some [[''a'', []]])], [CamelotLattice])
   \<and> list_ex (\<lambda>t. t \<noteq> []) (camelot_tables sources_lattice)
   \<and> BuildTableFromWords \<notin> set [CamelotLattice]
   \<and> extract_tables sources_plumber (Some ''Intro'') None
     = (Inr [Table ''Intro'' None None (Some [[''b'']])], [CamelotLattice, PlumberExtractTables])
   \<and> Inr [Table ''Intro'' None None (Some [[''b'']])]
       = (Inr (structured_items (Some ''Intro'') None (pdfplumber_tables sources_plumber)) :: exn + content_item list)
   \<and> extract_tables sources_words None None
     = (Inr [Table ''Unknown'' None (Some ''Reconstructed from word positions'') (Some [[''c'']])],
        [CamelotLattice, CamelotStream, PlumberExtractTables, PlumberExtractWords, BuildTableFromWords])
   \<and> PlumberExtractWords \<in> set [CamelotLattice, CamelotStream, PlumberExtractTables, PlumberExtractWords, BuildTableFromWords]
   \<and> list_all (\<lambda>it. it_description it = None) (structured_items None None [[[Some ''x'']]])
   \<and> list_all (\<lambda>it. it_description it = Some ''Reconstructed from word positions'')
        (word_items None None [[''c'']])"
proof -
  let ?rA = "Inr [Table ''Unknown'' None None (Some [[''a'', []]])] :: exn + content_item list"
  let ?rB = "Inr [Table ''Intro'' None None (Some [[''b'']])] :: exn + content_item list"
  let ?rC = "Inr [Table ''Unknown'' None (Some ''Reconstructed from word positions'') (Some [[''c'']])]
               :: exn + content_item list"
  let ?cC = "[CamelotLattice, CamelotStream, PlumberExtractTables, PlumberExtractWords, BuildTableFromWords]"
  have eA: "extract_tables sources_lattice None None = (?rA, [CamelotLattice])" by code_simp
  have eB: "extract_tables sources_plumber (Some ''Intro'') None = (?rB, [CamelotLattice, PlumberExtractTables])"
    by code_simp
  have eC: "extract_tables sources_words None None = (?rC, ?cC)" by code_simp
  have hA: "list_ex (\<lambda>t. t \<noteq> []) (camelot_tables sources_lattice)" by code_simp
  have hB: "\<not> list_ex (\<lambda>t. t \<noteq> []) (camelot_tables sources_plumber)
            \<and> list_ex (\<lambda>t. t \<noteq> []) (pdfplumber_tables sources_plumber)" by code_simp
  have hC: "\<not> list_ex (\<lambda>t. t \<noteq> []) (camelot_tables sources_words)
            \<and> \<not> list_ex (\<lambda>t. t \<noteq> []) (pdfplumber_tables sources_words)" by code_simp
  note tA = strategies_in_order[OF eA, where tables = "[[[Some ''x'']]]" and table = "[[''c'']]"]
  note tB = strategies_in_order[OF eB, where tables = "[[[Some ''x'']]]" and table = "[[''c'']]"]
  note tC = strategies_in_order[OF eC, where tables = "[[[Some ''x'']]]" and table = "[[''c'']]"]
  from tA hA have c1: "BuildTableFromWords \<notin> set [CamelotLattice]" by blast
  from tB hB have c2: "?rB = Inr (structured_items (Some ''Intro'') None (pdfplumber_tables sources_plumber))"
    by blast
  from tC hC have c3: "PlumberExtractWords \<in> set ?cC" by blast
  from tA have "\<forall>it \<in> set (structured_items None None [[[Some ''x'']]]). it_description it = None"
    by blast
  then have c4: "list_all (\<lambda>it. it_description it = None) (structured_items None None [[[Some ''x'']]])"
    by (simp only: list_all_iff)
  from tA have "\<forall>it \<in> set (word_items None None [[''c'']]).
       it_description it = Some ''Reconstructed from word positions''" by blast
  then have c5: "list_all (\<lambda>it. it_description it = Some ''Reconstructed from word positions'')
        (word_items None None [[''c'']])"
    by (simp only: list_all_iff)
  from eA hA c1 eB c2 eC c3 c4 c5 show ?thesis by blast
qed

lemma parse_pages_total:
  "\<forall>p \<in> set ps. \<exists>bs. sorted_blocks (page p) = Inr bs \<Longrightarrow>
     \<exists>out. parse_pages ps n sec sub acc = Inr out"
proof (induction ps arbitrary: n sec sub acc)
  case Nil then show ?case by simp
next
  case (Cons p ps)
  from Cons.prems obtain bs where b: "sorted_blocks (page p) = Inr bs" by auto
  from Cons.prems have r: "\<forall>p \<in> set ps. \<exists>bs. sorted_blocks (page p) = Inr bs" by simp
  obtain paragraphs sec' sub' where c: "classify_blocks bs ([], sec, sub) = (paragraphs, sec', sub')"
    by (cases "classify_blocks bs ([], sec, sub)") auto
  obtain tables where t: "fst (extract_tables (sources p) sec' sub') = Inr tables"
    by (simp add: extract_tables_items)
  show ?case using Cons.IH[OF r] by (simp add: extract_text_and_headings_def b c t Let_def)
qed

text \<open>
  C4. Whatever the extractors do, \<open>extract_tables\<close> returns a list of items and
  never raises. An exception in one strategy counts as zero tables from that
  strategy alone: the result is the one obtained when the failing call returns
  no table (or no word) instead, and the next strategy is attempted. The same
  holds when \<open>build_table_from_words\<close> raises on the words it is given. So no
  behaviour of the table extractors aborts the document: \<open>parse_pdf\<close> returns
  whenever the blocks of every page can be read.
\<close>

theorem failures_are_zero_tables:
  "(\<exists>items. fst (extract_tables src sec sub) = Inr items)
   \<and> (camelot_lattice src = Inl e \<longrightarrow>
        fst (extract_tables src sec sub)
          = fst (extract_tables (src\<lparr>camelot_lattice := Inr [], camelot_stream := Inr []\<rparr>) sec sub)
        \<and> PlumberExtractTables \<in> set (snd (extract_tables src sec sub)))
   \<and> (camelot_lattice src = Inr [] \<and> camelot_stream src = Inl e \<longrightarrow>
        fst (extract_tables src sec sub)
          = fst (extract_tables (src\<lparr>camelot_stream := Inr []\<rparr>) sec sub)
        \<and> PlumberExtractTables \<in> set (snd (extract_tables src sec sub)))
   \<and> (plumber_tables src = Inl e \<longrightarrow>
        fst (extract_tables src sec sub)
          = fst (extract_tables (src\<lparr>plumber_tables := Inr []\<rparr>) sec sub)
        \<and> (PlumberExtractTables \<in> set (snd (extract_tables src sec sub)) \<longrightarrow>
             PlumberExtractWords \<in> set (snd (extract_tables src sec sub))))
   \<and> (plumber_words src = Inl e \<longrightarrow>
        fst (extract_tables src sec sub)
          = fst (extract_tables (src\<lparr>plumber_words := Inr []\<rparr>) sec sub))
   \<and> (plumber_words src = Inr ws \<and> build_table_from_words ws 3 20 = Inl e \<longrightarrow>
        fst (extract_tables src sec sub)
          = fst (extract_tables (src\<lparr>plumber_words := Inr []\<rparr>) sec sub))
   \<and> ((\<forall>p \<in> set doc. \<exists>bs. sorted_blocks (page p) = Inr bs) \<longrightarrow>
        (\<exists>out. parse_pdf doc = Inr out))"
proof (intro conjI impI)
  show "\<exists>items. fst (extract_tables src sec sub) = Inr items"
    by (simp add: extract_tables_eq)
  show "\<exists>out. parse_pdf doc = Inr out"
    if "\<forall>p \<in> set doc. \<exists>bs. sorted_blocks (page p) = Inr bs"
    using that unfolding parse_pdf_def by (rule parse_pages_total)
  have b0: "build_table_from_words [] 3 20 = Inr []" by (simp add: build_table_from_words_def)
  {
    assume a: "camelot_lattice src = Inl e"
    then have "camelot_tables src = []"
      "camelot_tables (src\<lparr>camelot_lattice := Inr [], camelot_stream := Inr []\<rparr>) = []"
      by (simp_all add: camelot_tables_def)
    then show "fst (extract_tables src sec sub)
          = fst (extract_tables (src\<lparr>camelot_lattice := Inr [], camelot_stream := Inr []\<rparr>) sec sub)"
      "PlumberExtractTables \<in> set (snd (extract_tables src sec sub))"
      by (simp_all add: extract_tables_eq pdfplumber_tables_def word_table_def strategy_calls_def)
  }
  {
    assume a: "camelot_lattice src = Inr [] \<and> camelot_stream src = Inl e"
    then have "camelot_tables src = []" "camelot_tables (src\<lparr>camelot_stream := Inr []\<rparr>) = []"
      by (simp_all add: camelot_tables_def)
    then show "fst (extract_tables src sec sub)
          = fst (extract_tables (src\<lparr>camelot_stream := Inr []\<rparr>) sec sub)"
      "PlumberExtractTables \<in> set (snd (extract_tables src sec sub))"
      by (simp_all add: extract_tables_eq pdfplumber_tables_def word_table_def strategy_calls_def)
  }
  {
    assume a: "plumber_tables src = Inl e"
    then have p: "pdfplumber_tables src = []" "pdfplumber_tables (src\<lparr>plumber_tables := Inr []\<rparr>) = []"
      by (simp_all add: pdfplumber_tables_def)
    have c: "camelot_tables (src\<lparr>plumber_tables := Inr []\<rparr>) = camelot_tables src"
      "word_table (src\<lparr>plumber_tables := Inr []\<rparr>) = word_table src"
      by (simp_all add: camelot_tables_def word_table_def split: sum.splits)
    show "fst (extract_tables src sec sub)
          = fst (extract_tables (src\<lparr>plumber_tables := Inr []\<rparr>) sec sub)"
      by (simp add: extract_tables_eq p c)
    show "PlumberExtractWords \<in> set (snd (extract_tables src sec sub))"
      if "PlumberExtractTables \<in> set (snd (extract_tables src sec sub))"
      using that by (simp add: extract_tables_eq strategy_calls_def p split: if_splits)
  }
  {
    assume a: "plumber_words src = Inl e"
    then have w: "word_table src = []" "word_table (src\<lparr>plumber_words := Inr []\<rparr>) = []"
      by (simp_all add: word_table_def b0)
    have c: "camelot_tables (src\<lparr>plumber_words := Inr []\<rparr>) = camelot_tables src"
      "pdfplumber_tables (src\<lparr>plumber_words := Inr []\<rparr>) = pdfplumber_tables src"
      by (simp_all add: camelot_tables_def pdfplumber_tables_def split: sum.splits)
    show "fst (extract_tables src sec sub)
          = fst (extract_tables (src\<lparr>plumber_words := Inr []\<rparr>) sec sub)"
      by (simp add: extract_tables_eq w c)
  }
  {
    assume a: "plumber_words src = Inr ws \<and> build_table_from_words ws 3 20 = Inl e"
    then have w: "word_table src = []" "word_table (src\<lparr>plumber_words := Inr []\<rparr>) = []"
      by (simp_all add: word_table_def b0)
    have c: "camelot_tables (src\<lparr>plumber_words := Inr []\<rparr>) = camelot_tables src"
      "pdfplumber_tables (src\<lparr>plumber_words := Inr []\<rparr>) = pdfplumber_tables src"
      by (simp_all add: camelot_tables_def pdfplumber_tables_def split: sum.splits)
    show "fst (extract_tables src sec sub)
          = fst (extract_tables (src\<lparr>plumber_words := Inr []\<rparr>) sec sub)"
      by (simp add: extract_tables_eq w c)
  }
qed

theorem failures_are_zero_tables_witness:
  "camelot_lattice sources_plumber = Inl (ExternalError ''lattice'')
   \<and> fst (extract_tables sources_plumber None None)
       = fst (extract_tables (sources_plumber\<lparr>camelot_lattice := Inr [], camelot_stream := Inr []\<rparr>) None None)
   \<and> PlumberExtractTables \<in> set (snd (extract_tables sources_plumber None None))
   \<and> camelot_lattice sources_words = Inr []
   \<and> camelot_stream sources_words = Inl (ExternalError ''stream'')
   \<and> fst (extract_tables sources_words None None)
       = fst (extract_tables (sources_words\<lparr>camelot_stream := Inr []\<rparr>) None None)
   \<and> plumber_tables sources_words = Inl (ExternalError ''plumber'')
   \<and> fst (extract_tables sources_words None None)
       = fst (extract_tables (sources_words\<lparr>plumber_tables := Inr []\<rparr>) None None)
   \<and> PlumberExtractWords \<in> set (snd (extract_tables sources_words None None))
   \<and> plumber_words sources_all_fail = Inl (ExternalError ''words'')
   \<and> fst (extract_tables sources_all_fail None None)
       = fst (extract_tables (sources_all_fail\<lparr>plumber_words := Inr []\<rparr>) None None)
   \<and> fst (extract_tables sources_all_fail None None) = Inr []
   \<and> build_table_from_words [\<lparr>w_text = Some ''c'', w_top = None, w_x0 = Some 0\<rparr>] 3 20 = Inl KeyError
   \<and> fst (extract_tables sources_bad_word None None)
       = fst (extract_tables (sources_bad_word\<lparr>plumber_words := Inr []\<rparr>) None None)
   \<and> list_all (\<lambda>p. \<exists>bs. sorted_blocks (page p) = Inr bs)
        [\<lparr>page = intro_page, sources = sources_all_fail\<rparr>]
   \<and> (\<exists>out. parse_pdf [\<lparr>page = intro_page, sources = sources_all_fail\<rparr>] = Inr out)"
proof -
  let ?bw = "[\<lparr>w_text = Some ''c'', w_top = None, w_x0 = Some 0\<rparr>]"
  have h1: "camelot_lattice sources_plumber = Inl (ExternalError ''lattice'')"
    by (simp add: sources_plumber_def)
  have h2: "camelot_lattice sources_words = Inr [] \<and> camelot_stream sources_words = Inl (ExternalError ''stream'')"
    by (simp add: sources_words_def)
  have h3: "plumber_tables sources_words = Inl (ExternalError ''plumber'')"
    by (simp add: sources_words_def)
  have h4: "plumber_words sources_all_fail = Inl (ExternalError ''words'')"
    by (simp add: sources_all_fail_def)
  have h5: "plumber_words sources_bad_word = Inr ?bw \<and> build_table_from_words ?bw 3 20 = Inl KeyError"
    by code_simp
  have h6: "PlumberExtractTables \<in> set (snd (extract_tables sources_words None None))" by code_simp
  have h7: "fst (extract_tables sources_all_fail None None) = Inr []" by code_simp
  note t1 = failures_are_zero_tables[where src = sources_plumber and sec = None and sub = None
      and e = "ExternalError ''lattice''"]
  note t2 = failures_are_zero_tables[where src = sources_words and sec = None and sub = None
      and e = "ExternalError ''stream''"]
  note t3 = failures_are_zero_tables[where src = sources_words and sec = None and sub = None
      and e = "ExternalError ''plumber''"]
  note t4 = failures_are_zero_tables[where src = sources_all_fail and sec = None and sub = None
      and e = "ExternalError ''words''"]
  note t5 = failures_are_zero_tables[where src = sources_bad_word and sec = None and sub = None
      and e = KeyError and ws = ?bw]
  from t1 h1 have c1: "fst (extract_tables sources_plumber None None)
       = fst (extract_tables (sources_plumber\<lparr>camelot_lattice := Inr [], camelot_stream := Inr []\<rparr>) None None)
     \<and> PlumberExtractTables \<in> set (snd (extract_tables sources_plumber None None))" by blast
  from t2 h2 have c2: "fst (extract_tables sources_words None None)
       = fst (extract_tables (sources_words\<lparr>camelot_stream := Inr []\<rparr>) None None)" by blast
  from t3 h3 h6 have c3: "fst (extract_tables sources_words None None)
       = fst (extract_tables (sources_words\<lparr>plumber_tables := Inr []\<rparr>) None None)
     \<and> PlumberExtractWords \<in> set (snd (extract_tables sources_words None None))" by blast
  from t4 h4 have c4: "fst (extract_tables sources_all_fail None None)
       = fst (extract_tables (sources_all_fail\<lparr>plumber_words := Inr []\<rparr>) None None)" by blast
  from t5 h5 have c5: "fst (extract_tables sources_bad_word None None)
       = fst (extract_tables (sources_bad_word\<lparr>plumber_words := Inr []\<rparr>) None None)" by blast
  let ?doc = "[\<lparr>page = intro_page, sources = sources_all_fail\<rparr>]"
  have "sorted_blocks intro_page
       = Inr [\<lparr>eb_text = ''Intro'', eb_bbox = Some (0, 0, 100, 10), largest_font = 18, is_bold = False\<rparr>,
              \<lparr>eb_text = ''Hello world.'', eb_bbox = Some (0, 30, 100, 40), largest_font = 11, is_bold = False\<rparr>]"
    by code_simp
  then have h8: "\<forall>p \<in> set ?doc. \<exists>bs. sorted_blocks (page p) = Inr bs" by simp
  then have h8': "list_all (\<lambda>p. \<exists>bs. sorted_blocks (page p) = Inr bs) ?doc"
    unfolding list_all_iff .
  note t6 = failures_are_zero_tables[where doc = ?doc, THEN conjunct2, THEN conjunct2, THEN conjunct2,
      THEN conjunct2, THEN conjunct2, THEN conjunct2]
  from t6[THEN mp, OF h8] have c6: "\<exists>out. parse_pdf ?doc = Inr out" .
  from h1 c1 h2 c2 h3 c3 h4 c4 h7 h5 c5 h8' c6 show ?thesis by blast
qed



subsection \<open>Sections of the emitted items\<close>

lemma section_label_ne: "section_label s \<noteq> []"
  by (simp add: section_label_def split: option.splits)

lemma classify_blocks_acc:
  "fst (classify_blocks bs (ps, sec, sub)) = ps @ fst (classify_blocks bs ([], sec, sub))"
proof (induction bs arbitrary: ps sec sub)
  case Nil then show ?case by (simp add: classify_blocks_def)
next
  case (Cons b bs)
  consider "section_heading b" | "\<not> section_heading b" "subsection_heading b"
    | "\<not> section_heading b" "\<not> subsection_heading b" by blast
  then show ?case
  proof cases
    case 1 then show ?thesis using Cons.IH[of ps] Cons.IH[of "[]"]
      by (simp add: classify_blocks_Cons classify_block_section)
  next
    case 2 then show ?thesis using Cons.IH[of ps] Cons.IH[of "[]"]
      by (simp add: classify_blocks_Cons classify_block_subsection)
  next
    case 3
    then show ?thesis
      using Cons.IH[of "ps @ [Paragraph (section_label sec) sub (eb_text b)]" sec sub]
        Cons.IH[of "[Paragraph (section_label sec) sub (eb_text b)]" sec sub]
      by (simp add: classify_blocks_Cons classify_block_paragraph)
  qed
qed

lemma classify_blocks_sections:
  "\<forall>p \<in> set ps. it_section p \<noteq> [] \<Longrightarrow>
     \<forall>p \<in> set (fst (classify_blocks bs (ps, sec, sub))). it_section p \<noteq> []"
proof (induction bs arbitrary: ps sec sub)
  case Nil then show ?case by (simp add: classify_blocks_def)
next
  case (Cons b bs)
  consider "section_heading b" | "\<not> section_heading b" "subsection_heading b"
    | "\<not> section_heading b" "\<not> subsection_heading b" by blast
  then show ?case
  proof cases
    case 1 then show ?thesis using Cons by (simp add: classify_blocks_Cons classify_block_section)
  next
    case 2 then show ?thesis using Cons by (simp add: classify_blocks_Cons classify_block_subsection)
  next
    case 3
    have "\<forall>p \<in> set (ps @ [Paragraph (section_label sec) sub (eb_text b)]). it_section p \<noteq> []"
      using Cons.prems by (simp add: section_label_ne)
    from Cons.IH[OF this] show ?thesis using 3
      by (simp add: classify_blocks_Cons classify_block_paragraph)
  qed
qed

lemma classify_blocks_unknown:
  "\<forall>b \<in> set bs. \<not> section_heading b \<Longrightarrow> section_label sec = ''Unknown'' \<Longrightarrow>
   \<forall>p \<in> set ps. it_section p = ''Unknown'' \<Longrightarrow>
     \<forall>p \<in> set (fst (classify_blocks bs (ps, sec, sub))). it_section p = ''Unknown''"
proof (induction bs arbitrary: ps sub)
  case Nil then show ?case by (simp add: classify_blocks_def)
next
  case (Cons b bs)
  from Cons.prems(1) have nb: "\<not> section_heading b" and rest: "\<forall>b \<in> set bs. \<not> section_heading b"
    by simp_all
  show ?case
  proof (cases "subsection_heading b")
    case True
    then show ?thesis using Cons.IH[OF rest Cons.prems(2,3)] nb
      by (simp add: classify_blocks_Cons classify_block_subsection)
  next
    case False
    have "\<forall>p \<in> set (ps @ [Paragraph (section_label sec) sub (eb_text b)]). it_section p = ''Unknown''"
      using Cons.prems(2,3) by simp
    from Cons.IH[OF rest Cons.prems(2) this] show ?thesis using nb False
      by (simp add: classify_blocks_Cons classify_block_paragraph)
  qed
qed

lemma extract_tables_sections:
  "fst (extract_tables src sec sub) = Inr items \<Longrightarrow> it \<in> set items \<Longrightarrow>
     it_section it = section_label sec"
  by (auto simp: extract_tables_items structured_items_def word_items_def split: if_splits)

lemma extract_charts_sections:
  "it \<in> set (extract_charts pg sec sub) \<Longrightarrow> it_section it = section_label sec"
  by (auto simp: extract_charts_def split: if_splits)

lemma parse_pages_Cons_Inr:
  assumes "parse_pages (p # ps) n sec sub acc = Inr out"
  obtains enriched paragraphs sec' sub' tables where
    "sorted_blocks (page p) = Inr enriched"
    "classify_blocks enriched ([], sec, sub) = (paragraphs, sec', sub')"
    "fst (extract_tables (sources p) sec' sub') = Inr tables"
    "parse_pages ps (n + 1) sec' sub'
       (acc @ [\<lparr>page_number = n,
                content = paragraphs @ tables @ extract_charts (page p) sec' sub'\<rparr>]) = Inr out"
  using assms
  by (auto simp: extract_text_and_headings_def Let_def split: sum.splits prod.splits)

lemma page_items_sections:
  assumes "classify_blocks enriched ([], sec, sub) = (paragraphs, sec', sub')"
    and "fst (extract_tables src sec' sub') = Inr tables"
    and "it \<in> set (paragraphs @ tables @ extract_charts pg sec' sub')"
  shows "it_section it \<noteq> []"
proof -
  have "\<forall>p \<in> set paragraphs. it_section p \<noteq> []"
    using classify_blocks_sections[of "[]" enriched sec sub] assms(1) by simp
  then show ?thesis
    using assms(2,3) extract_tables_sections extract_charts_sections section_label_ne
    by (metis Un_iff set_append)
qed

lemma page_items_unknown:
  assumes "classify_blocks enriched ([], sec, sub) = (paragraphs, sec', sub')"
    and "fst (extract_tables src sec' sub') = Inr tables"
    and "\<forall>b \<in> set enriched. \<not> section_heading b" and "section_label sec = ''Unknown''"
    and "it \<in> set (paragraphs @ tables @ extract_charts pg sec' sub')"
  shows "sec' = sec \<and> it_section it = ''Unknown''"
proof -
  have s: "sec' = sec" using classify_blocks_no_section[OF assms(3), of "[]" sec sub] assms(1) by simp
  have "\<forall>p \<in> set paragraphs. it_section p = ''Unknown''"
    using classify_blocks_unknown[OF assms(3,4), of "[]" sub] assms(1) by simp
  then show ?thesis
    using s assms(2,4,5) extract_tables_sections extract_charts_sections
    by (metis Un_iff set_append)
qed

lemma parse_pages_sections:
  "parse_pages ps n sec sub acc = Inr out \<Longrightarrow>
     \<exists>new. out = acc @ new \<and> length new = length ps
        \<and> (\<forall>pg \<in> set new. \<forall>it \<in> set (content pg). it_section it \<noteq> [])"
proof (induction ps arbitrary: n sec sub acc)
  case Nil then show ?case by simp
next
  case (Cons p ps)
  from Cons.prems obtain enriched paragraphs sec' sub' tables where
    c: "classify_blocks enriched ([], sec, sub) = (paragraphs, sec', sub')"
    and t: "fst (extract_tables (sources p) sec' sub') = Inr tables"
    and r: "parse_pages ps (n + 1) sec' sub'
       (acc @ [\<lparr>page_number = n,
                content = paragraphs @ tables @ extract_charts (page p) sec' sub'\<rparr>]) = Inr out"
    by (rule parse_pages_Cons_Inr)
  let ?pg = "\<lparr>page_number = n, content = paragraphs @ tables @ extract_charts (page p) sec' sub'\<rparr>"
  from Cons.IH[OF r] obtain new where
    n: "out = (acc @ [?pg]) @ new" "length new = length ps"
       "\<forall>pg \<in> set new. \<forall>it \<in> set (content pg). it_section it \<noteq> []" by blast
  have "\<forall>it \<in> set (content ?pg). it_section it \<noteq> []"
    using page_items_sections[OF c t] by simp
  then have "\<forall>pg \<in> set (?pg # new). \<forall>it \<in> set (content pg). it_section it \<noteq> []"
    using n(3) by simp
  moreover have "out = acc @ (?pg # new)" "length (?pg # new) = length (p # ps)"
    using n(1,2) by simp_all
  ultimately show ?case by blast
qed

lemma parse_pages_unknown:
  "parse_pages (pre @ post) n sec sub acc = Inr out \<Longrightarrow> section_label sec = ''Unknown'' \<Longrightarrow>
   \<forall>p \<in> set pre. no_section_heading (page p) \<Longrightarrow>
     \<exists>new rest. out = acc @ new @ rest \<and> length new = length pre
        \<and> (\<forall>pg \<in> set new. \<forall>it \<in> set (content pg). it_section it = ''Unknown'')"
proof (induction pre arbitrary: n sub acc)
  case Nil
  from parse_pages_sections[of post n sec sub acc out] Nil.prems(1)
  obtain new where "out = acc @ new" by auto
  then have "out = acc @ [] @ new" by simp
  then show ?case by force
next
  case (Cons p pre)
  from Cons.prems(1) have "parse_pages (p # (pre @ post)) n sec sub acc = Inr out" by simp
  then obtain enriched paragraphs sec' sub' tables where
    sb: "sorted_blocks (page p) = Inr enriched"
    and c: "classify_blocks enriched ([], sec, sub) = (paragraphs, sec', sub')"
    and t: "fst (extract_tables (sources p) sec' sub') = Inr tables"
    and r: "parse_pages (pre @ post) (n + 1) sec' sub'
       (acc @ [\<lparr>page_number = n,
                content = paragraphs @ tables @ extract_charts (page p) sec' sub'\<rparr>]) = Inr out"
    by (rule parse_pages_Cons_Inr)
  let ?pg = "\<lparr>page_number = n, content = paragraphs @ tables @ extract_charts (page p) sec' sub'\<rparr>"
  from Cons.prems(3) sb have nh: "\<forall>b \<in> set enriched. \<not> section_heading b"
    by (simp add: no_section_heading_def list_all_iff)
  note u = page_items_unknown[OF c t nh Cons.prems(2)]
  have s: "sec' = sec" using u[of "hd (extract_charts (page p) sec' sub')" "page p"]
    by (simp add: extract_charts_def)
  have pgu: "\<forall>it \<in> set (content ?pg). it_section it = ''Unknown''" using u by simp
  from Cons.prems(3) have pre: "\<forall>p \<in> set pre. no_section_heading (page p)" by simp
  from Cons.IH[OF r[unfolded s] Cons.prems(2) pre] obtain new rest where
    n: "out = (acc @ [?pg]) @ new @ rest" "length new = length pre"
       "\<forall>pg \<in> set new. \<forall>it \<in> set (content pg). it_section it = ''Unknown''"
    unfolding s by blast
  have "out = acc @ (?pg # new) @ rest" "length (?pg # new) = length (p # pre)"
    using n(1,2) by simp_all
  moreover have "\<forall>pg \<in> set (?pg # new). \<forall>it \<in> set (content pg). it_section it = ''Unknown''"
    using pgu n(3) by simp
  ultimately show ?case by blast
qed

text \<open>
  C8. Every item of the parsed document, paragraph, table or chart, has a
  section that is a non-empty string. The items of the leading pages on which no
  block is a section heading all have the section "Unknown"; so do the
  paragraphs of the blocks that come before the first section heading of a
  page, when no section was carried in. In particular a document with no
  section heading has "Unknown" in every item.
\<close>

theorem section_never_absent:
  assumes "parse_pdf doc = Inr out"
  shows "(\<forall>pg \<in> set out. \<forall>it \<in> set (content pg). it_section it \<noteq> [])
       \<and> (doc = pre @ post \<and> (\<forall>p \<in> set pre. no_section_heading (page p)) \<longrightarrow>
            (\<forall>pg \<in> set (take (length pre) out). \<forall>it \<in> set (content pg).
                it_section it = ''Unknown''))
       \<and> ((\<forall>b \<in> set bs. \<not> section_heading b) \<longrightarrow>
            (\<forall>p \<in> set (fst (classify_blocks bs ([], None, sub))). it_section p = ''Unknown'')
            \<and> fst (classify_blocks (bs @ bs') ([], None, sub))
                = fst (classify_blocks bs ([], None, sub))
                  @ fst (classify_blocks bs' ([], None, snd (snd (classify_blocks bs ([], None, sub))))))"
proof (intro conjI impI)
  from assms have p: "parse_pages doc 1 None None [] = Inr out" by (simp add: parse_pdf_def)
  from parse_pages_sections[OF p]
  show "\<forall>pg \<in> set out. \<forall>it \<in> set (content pg). it_section it \<noteq> []" by auto
  {
    assume a: "doc = pre @ post \<and> (\<forall>p \<in> set pre. no_section_heading (page p))"
    with p have "parse_pages (pre @ post) 1 None None [] = Inr out" by simp
    from parse_pages_unknown[OF this] a obtain new rest where
      n: "out = [] @ new @ rest" "length new = length pre"
         "\<forall>pg \<in> set new. \<forall>it \<in> set (content pg). it_section it = ''Unknown''"
      by (auto simp: section_label_def)
    then have "take (length pre) out = new" by simp
    with n(3) show "\<forall>pg \<in> set (take (length pre) out). \<forall>it \<in> set (content pg).
                it_section it = ''Unknown''" by simp
  }
  {
    assume a: "\<forall>b \<in> set bs. \<not> section_heading b"
    show "\<forall>p \<in> set (fst (classify_blocks bs ([], None, sub))). it_section p = ''Unknown''"
      using classify_blocks_unknown[OF a, of None "[]" sub] by (simp add: section_label_def)
    obtain ps s' sub' where st: "classify_blocks bs ([], None, sub) = (ps, s', sub')"
      by (cases "classify_blocks bs ([], None, sub)") auto
    have "s' = None" using classify_blocks_no_section[OF a, of "[]" None sub] st by simp
    then show "fst (classify_blocks (bs @ bs') ([], None, sub))
                = fst (classify_blocks bs ([], None, sub))
                  @ fst (classify_blocks bs' ([], None, snd (snd (classify_blocks bs ([], None, sub)))))"
      using classify_blocks_acc[of bs' ps None sub'] by (simp add: classify_blocks_append st)
  }
qed

theorem section_never_absent_witness:
  "parse_pdf [plain_page, titled_page]
     = Inr [\<lparr>page_number = 1,
             content =
               [Paragraph ''Unknown'' None ''Hello world.'',
                Table ''Unknown'' None (Some ''Reconstructed from word positions'') (Some [[''c'']]),
                Chart ''Unknown'' None (Some ''Chart image detected'') None,
                Chart ''Unknown'' None (Some ''Chart image detected'') None]\<rparr>,
            \<lparr>page_number = 2,
             content =
               [Paragraph ''Intro'' None ''Hello world.'',
                Table ''Intro'' None None (Some [[''a'', []]]),
                Chart ''Intro'' None (Some ''Chart (vector or non-extractable)'') None]\<rparr>]
   \<and> list_all (\<lambda>p. no_section_heading (page p)) [plain_page]
   \<and> list_all (\<lambda>it. it_section it = ''Unknown'')
        [Paragraph ''Unknown'' None ''Hello world.'',
         Table ''Unknown'' None (Some ''Reconstructed from word positions'') (Some [[''c'']]),
         Chart ''Unknown'' None (Some ''Chart image detected'') None,
         Chart ''Unknown'' None (Some ''Chart image detected'') None]
   \<and> list_all (\<lambda>it. it_section it \<noteq> [])
        [Paragraph ''Intro'' None ''Hello world.'',
         Table ''Intro'' None None (Some [[''a'', []]]),
         Chart ''Intro'' None (Some ''Chart (vector or non-extractable)'') None]
   \<and> list_all (\<lambda>b. \<not> section_heading b)
        [\<lparr>eb_text = ''Hello world.'', eb_bbox = None, largest_font = 11, is_bold = False\<rparr>]
   \<and> list_all (\<lambda>p. it_section p = ''Unknown'')
        (fst (classify_blocks
           [\<lparr>eb_text = ''Hello world.'', eb_bbox = None, largest_font = 11, is_bold = False\<rparr>]
           ([], None, None)))"
proof -
  let ?c1 = "[Paragraph ''Unknown'' None ''Hello world.'',
                Table ''Unknown'' None (Some ''Reconstructed from word positions'') (Some [[''c'']]),
                Chart ''Unknown'' None (Some ''Chart image detected'') None,
                Chart ''Unknown'' None (Some ''Chart image detected'') None]"
  let ?c2 = "[Paragraph ''Intro'' None ''Hello world.'',
                Table ''Intro'' None None (Some [[''a'', []]]),
                Chart ''Intro'' None (Some ''Chart (vector or non-extractable)'') None]"
  let ?out = "[\<lparr>page_number = 1, content = ?c1\<rparr>, \<lparr>page_number = 2, content = ?c2\<rparr>]"
  let ?bs = "[\<lparr>eb_text = ''Hello world.'', eb_bbox = None, largest_font = 11, is_bold = False\<rparr>]"
  have e: "parse_pdf [plain_page, titled_page] = Inr ?out" by code_simp
  have h: "list_all (\<lambda>p. no_section_heading (page p)) [plain_page]" by code_simp
  have hb: "list_all (\<lambda>b. \<not> section_heading b) ?bs" by code_simp
  note t = section_never_absent[OF e, where pre = "[plain_page]" and post = "[titled_page]"
      and bs = ?bs and bs' = "[]" and sub = None]
  note t1 = t[THEN conjunct1]
  note t2 = t[THEN conjunct2, THEN conjunct1]
  note t3 = t[THEN conjunct2, THEN conjunct2]
  from t1 have "\<forall>pg \<in> set ?out. \<forall>it \<in> set (content pg). it_section it \<noteq> []" .
  then have "\<forall>it \<in> set ?c2. it_section it \<noteq> []" by simp
  then have c2: "list_all (\<lambda>it. it_section it \<noteq> []) ?c2" unfolding list_all_iff .
  from h have "\<forall>p \<in> set [plain_page]. no_section_heading (page p)" unfolding list_all_iff .
  then have "[plain_page, titled_page] = [plain_page] @ [titled_page]
      \<and> (\<forall>p \<in> set [plain_page]. no_section_heading (page p))" by simp
  from t2[rule_format, OF this] have "\<forall>pg \<in> set (take (length [plain_page]) ?out). \<forall>it \<in> set (content pg).
       it_section it = ''Unknown''" by blast
  then have "\<forall>it \<in> set ?c1. it_section it = ''Unknown''" by simp
  then have c1: "list_all (\<lambda>it. it_section it = ''Unknown'') ?c1" unfolding list_all_iff .
  from hb have "\<forall>b \<in> set ?bs. \<not> section_heading b" unfolding list_all_iff .
  from t3[THEN mp, OF this, THEN conjunct1]
  have "\<forall>p \<in> set (fst (classify_blocks ?bs ([], None, None))). it_section p = ''Unknown''" .
  then have c3: "list_all (\<lambda>p. it_section p = ''Unknown'') (fst (classify_blocks ?bs ([], None, None)))"
    unfolding list_all_iff .
  from e h c1 c2 hb c3 show ?thesis by blast
qed

subsection \<open>Malformed page geometry\<close>

text \<open>
  C7 fails on the code. A text block with no \<open>bbox\<close> key is kept in \<open>enriched\<close>
  with \<open>bbox = None\<close>, and the sort key subscripts it: \<open>extract_text_and_headings\<close>
  raises \<open>TypeError\<close>, and so does \<open>parse_pdf\<close>, where nothing catches it. A span
  with no \<open>size\<close> key raises \<open>KeyError\<close>.
\<close>

theorem missing_bbox_raises:
  "extract_text_and_headings missing_bbox_page None None = Inl TypeError
   \<and> parse_pdf [\<lparr>page = missing_bbox_page, sources = sources_all_fail\<rparr>] = Inl TypeError
   \<and> extract_text_and_headings missing_size_page None None = Inl KeyError"
proof (intro conjI)
  show "extract_text_and_headings missing_bbox_page None None = Inl TypeError" by code_simp
  show "parse_pdf [\<lparr>page = missing_bbox_page, sources = sources_all_fail\<rparr>] = Inl TypeError"
    by code_simp
  show "extract_text_and_headings missing_size_page None None = Inl KeyError" by code_simp
qed

end
